theory Spec2Isabelle
  imports Complex_Main
begin

section \<open>Python values and exceptions\<close>

text \<open>
  The values \<open>json.loads\<close> can return, and the Python values a result dictionary can
  hold. A \<open>dict\<close> is an association list read with \<open>map_of\<close>. A \<open>str\<close> is a
  \<open>string\<close>: one \<open>char\<close> stands for one character, so \<open>length\<close> is \<open>len\<close>.
\<close>

datatype pyval =
    PyNone
  | PyBool bool
  | PyInt int
  | PyFloat real
  | PyStr string
  | PyList "pyval list"
  | PyDict "(string \<times> pyval) list"

text \<open>
  The exception classes the services meet. Each carries the text \<open>str(e)\<close> prints.
  In the provider library \<open>RateLimitError\<close>, \<open>BadRequestError\<close> and
  \<open>AuthenticationError\<close> are subclasses of \<open>APIError\<close>; \<open>asyncio.TimeoutError\<close> and the
  others are not. The values \<open>APIError m\<close> are the errors the provider library itself
  builds and raises.
\<close>

datatype exn =
    TimeoutError
  | RateLimitError string
  | APIError string
  | BadRequestError string
  | AuthenticationError string
  | JSONDecodeError string
  | KeyError string
  | AttributeError string
  | ValueError string
  | TypeError string
  | OverflowError string
  | IntegrityError string
  | Exception string

fun isinstance_RateLimitError :: "exn \<Rightarrow> bool" where
  "isinstance_RateLimitError (RateLimitError m) = True"
| "isinstance_RateLimitError e = False"

fun isinstance_APIError :: "exn \<Rightarrow> bool" where
  "isinstance_APIError (APIError m) = True"
| "isinstance_APIError (RateLimitError m) = True"
| "isinstance_APIError (BadRequestError m) = True"
| "isinstance_APIError (AuthenticationError m) = True"
| "isinstance_APIError e = False"

fun isinstance_JSONDecodeError :: "exn \<Rightarrow> bool" where
  "isinstance_JSONDecodeError (JSONDecodeError m) = True"
| "isinstance_JSONDecodeError e = False"

fun isinstance_KeyError :: "exn \<Rightarrow> bool" where
  "isinstance_KeyError (KeyError m) = True"
| "isinstance_KeyError e = False"

fun str_exn :: "exn \<Rightarrow> string" where
  "str_exn TimeoutError = ''''"
| "str_exn (RateLimitError m) = m"
| "str_exn (APIError m) = m"
| "str_exn (BadRequestError m) = m"
| "str_exn (AuthenticationError m) = m"
| "str_exn (JSONDecodeError m) = m"
| "str_exn (KeyError m) = m"
| "str_exn (AttributeError m) = m"
| "str_exn (ValueError m) = m"
| "str_exn (TypeError m) = m"
| "str_exn (OverflowError m) = m"
| "str_exn (IntegrityError m) = m"
| "str_exn (Exception m) = m"

section \<open>Settings (app/config.py)\<close>

record settings =
  openai_model :: string
  openai_max_tokens :: int
  openai_temperature :: real
  openai_timeout :: int
  max_retries :: int
  retry_delay :: real

definition default_settings :: settings where
  "default_settings =
     \<lparr>openai_model = ''gpt-3.5-turbo'', openai_max_tokens = 500,
      openai_temperature = 7 / 10, openai_timeout = 20,
      max_retries = 3, retry_delay = 1\<rparr>"

section \<open>The provider\<close>

text \<open>
  One call of \<open>client.chat.completions.create\<close> either finishes after some seconds,
  returning a response or raising, or never finishes. The provider is scripted like a
  mock: its answer depends on how many calls came before and on the request.
\<close>

record chat_request =
  req_model :: string
  req_messages :: "(string \<times> string) list"
  req_max_tokens :: int
  req_temperature :: real

record provider_response =
  content :: string
  prompt_tokens :: int
  completion_tokens :: int

datatype call = Finishes real "exn + provider_response" | Hangs

type_synonym provider = "nat \<Rightarrow> chat_request \<Rightarrow> call"

text \<open>
  A scripted provider, as a mock with a \<open>side_effect\<close> list: the \<open>k\<close>-th call gives
  the \<open>k\<close>-th entry of the script, every later call the default.
\<close>

definition scripted :: "call list \<Rightarrow> call \<Rightarrow> provider" where
  "scripted cs d k rq = (if k < length cs then cs ! k else d)"

text \<open>
  \<open>asyncio.wait_for(aw, timeout)\<close>: the result of the call when it finishes within
  the timeout, \<open>TimeoutError\<close> otherwise. \<open>seconds_taken\<close> is what
  \<open>time.time() - start_time\<close> measures around it.
\<close>

fun wait_for :: "call \<Rightarrow> real \<Rightarrow> exn + provider_response" where
  "wait_for Hangs timeout = Inl TimeoutError"
| "wait_for (Finishes t r) timeout = (if t \<le> timeout then r else Inl TimeoutError)"

fun seconds_taken :: "call \<Rightarrow> real \<Rightarrow> real" where
  "seconds_taken Hangs timeout = timeout"
| "seconds_taken (Finishes t r) timeout = min t timeout"

section \<open>OpenAIService (app/services.py)\<close>

record OpenAIService =
  self_model :: string
  self_max_tokens :: int
  self_temperature :: real
  self_timeout :: int
  self_max_retries :: int
  self_retry_delay :: real

definition OpenAIService_init :: "settings \<Rightarrow> OpenAIService" where
  "OpenAIService_init s =
     \<lparr>self_model = openai_model s, self_max_tokens = openai_max_tokens s,
      self_temperature = openai_temperature s, self_timeout = openai_timeout s,
      self_max_retries = max_retries s, self_retry_delay = retry_delay s\<rparr>"

text \<open>The dictionary \<open>chat_completion\<close> returns.\<close>

record completion =
  response :: string
  input_tokens :: int
  output_tokens :: int
  processing_time_ms :: real
  model_used :: string

definition build_messages :: "string \<Rightarrow> string option \<Rightarrow> (string \<times> string) list" where
  "build_messages text system_prompt =
     (case system_prompt of
        None \<Rightarrow> []
      | Some p \<Rightarrow> if p = [] then [] else [(''system'', p)])
     @ [(''user'', text)]"

text \<open>The keyword arguments of \<open>client.chat.completions.create\<close>.\<close>

definition create_request :: "OpenAIService \<Rightarrow> string \<Rightarrow> string option \<Rightarrow> chat_request" where
  "create_request self text system_prompt =
     \<lparr>req_model = self_model self, req_messages = build_messages text system_prompt,
      req_max_tokens = self_max_tokens self, req_temperature = self_temperature self\<rparr>"

text \<open>What awaiting the \<open>k\<close>-th provider call under the service's timeout yields.\<close>

definition awaited ::
  "OpenAIService \<Rightarrow> provider \<Rightarrow> nat \<Rightarrow> string \<Rightarrow> string option \<Rightarrow> exn + provider_response" where
  "awaited self provider k text system_prompt =
     wait_for (provider k (create_request self text system_prompt))
       (real_of_int (self_timeout self))"

text \<open>
  \<open>APIError(message)\<close>, the constructor called with one positional argument, as the
  two handlers of the source call it. In the provider library (openai 1.0 and later, the
  versions that have \<open>AsyncOpenAI\<close>) the constructor is
  \<open>__init__(self, message, request, *, body)\<close>: the call raises \<open>TypeError\<close> and builds
  no \<open>APIError\<close>. The text of the \<open>TypeError\<close> is written without its quotation marks.
\<close>

definition APIError_call :: "string \<Rightarrow> exn" where
  "APIError_call message =
     TypeError ''APIError.__init__() missing 1 required positional argument: request''"

text \<open>
  The body of \<open>chat_completion\<close>, one attempt: the \<open>k\<close>-th call of the provider under
  \<open>wait_for\<close>, and the four exception handlers in the order of the source. An exception
  raised inside a handler leaves the \<open>try\<close> statement: the later handlers do not see it.
\<close>

definition chat_completion_body ::
  "OpenAIService \<Rightarrow> provider \<Rightarrow> nat \<Rightarrow> string \<Rightarrow> string option \<Rightarrow> exn + completion" where
  "chat_completion_body self provider k text system_prompt =
     (let aw = provider k (create_request self text system_prompt);
          timeout = real_of_int (self_timeout self)
      in case wait_for aw timeout of
           Inr resp \<Rightarrow>
             Inr \<lparr>response = content resp, input_tokens = prompt_tokens resp,
                  output_tokens = completion_tokens resp,
                  processing_time_ms = seconds_taken aw timeout * 1000,
                  model_used = self_model self\<rparr>
         | Inl e \<Rightarrow>
             if e = TimeoutError then Inl (APIError_call ''OpenAI request timeout'')
             else if isinstance_RateLimitError e then Inl e
             else if isinstance_APIError e then Inl e
             else Inl (APIError_call (''Unexpected error: '' @ str_exn e)))"

text \<open>
  The \<open>@retry\<close> decorator. \<open>wait_exponential(multiplier, min, max)\<close> waits
  \<open>multiplier * 2 ** (attempt_number - 1)\<close> seconds, clamped between \<open>min\<close> and
  \<open>max\<close>. The loop calls the function; an exception the \<open>retry\<close> predicate rejects is
  raised at once; otherwise \<open>stop_after_attempt\<close> decides whether the last exception is
  raised again (\<open>reraise=True\<close>) or the loop sleeps and tries again. It returns the
  outcome, the number of attempts made and the sleeps in order.
\<close>

definition wait_exponential :: "real \<Rightarrow> real \<Rightarrow> real \<Rightarrow> nat \<Rightarrow> real" where
  "wait_exponential multiplier mn mx attempt_number =
     max (max 0 mn) (min (multiplier * 2 ^ (attempt_number - 1)) mx)"

function retry_loop ::
  "nat \<Rightarrow> (nat \<Rightarrow> real) \<Rightarrow> (exn \<Rightarrow> bool) \<Rightarrow> (nat \<Rightarrow> exn + 'a) \<Rightarrow> nat \<Rightarrow> real list
     \<Rightarrow> (exn + 'a) \<times> nat \<times> real list" where
  "retry_loop stop_after_attempt wait retry_if fn attempt_number slept =
     (case fn attempt_number of
        Inr r \<Rightarrow> (Inr r, attempt_number, slept)
      | Inl e \<Rightarrow>
          if \<not> retry_if e then (Inl e, attempt_number, slept)
          else if attempt_number \<ge> stop_after_attempt then (Inl e, attempt_number, slept)
          else retry_loop stop_after_attempt wait retry_if fn (attempt_number + 1)
                 (slept @ [wait attempt_number]))"
  by pat_completeness auto
termination
  by (relation "measure (\<lambda>(stop_after_attempt, wait, retry_if, fn, attempt_number, slept).
        stop_after_attempt - attempt_number)") auto

declare retry_loop.simps [simp del]

text \<open>
  \<open>chat_completion\<close> under its decorator: \<open>stop_after_attempt(3)\<close>,
  \<open>wait_exponential(multiplier=1, min=1, max=10)\<close>,
  \<open>retry_if_exception_type((RateLimitError, APIError))\<close>. \<open>calls\<close> counts the provider
  calls made before; the function returns the outcome, the count after it and its sleeps.
\<close>

definition chat_completion ::
  "OpenAIService \<Rightarrow> provider \<Rightarrow> nat \<Rightarrow> string \<Rightarrow> string option
     \<Rightarrow> (exn + completion) \<times> nat \<times> real list" where
  "chat_completion self provider calls text system_prompt =
     (case retry_loop 3 (wait_exponential 1 1 10)
             (\<lambda>e. isinstance_RateLimitError e \<or> isinstance_APIError e)
             (\<lambda>attempt_number.
                chat_completion_body self provider (calls + attempt_number - 1) text system_prompt)
             1 [] of
        (outcome, attempts, slept) \<Rightarrow> (outcome, calls + attempts, slept))"

definition validate_response :: "string \<Rightarrow> bool" where
  "validate_response txt = (txt \<noteq> [] \<and> length txt > 0 \<and> length txt < 10000)"

section \<open>ConversationService (app/services.py)\<close>

definition ConversationService_system_prompt :: string where
  "ConversationService_system_prompt =
     ''You are a helpful, concise, and professional assistant. '' @
     ''Provide clear and direct responses. Keep responses under 500 tokens.''"

definition process_conversation ::
  "OpenAIService \<Rightarrow> provider \<Rightarrow> nat \<Rightarrow> string \<Rightarrow> (exn + completion) \<times> nat \<times> real list" where
  "process_conversation openai_service provider calls text =
     (case chat_completion openai_service provider calls text
             (Some ConversationService_system_prompt) of
        (Inl e, st) \<Rightarrow> (Inl e, st)
      | (Inr result, st) \<Rightarrow>
          if \<not> validate_response (response result)
          then (Inl (ValueError ''Invalid response from OpenAI''), st)
          else (Inr result, st))"

section \<open>SMSDecisionService (app/services.py)\<close>

definition newline :: char where
  "newline = CHR 0x0A"

definition sms_prompt :: "string \<Rightarrow> string" where
  \<open>sms_prompt text =
     ''You must respond with a JSON object containing:'' @ [newline] @
     ''1. "decision": "yes" or "no"'' @ [newline] @
     ''2. "reply": a brief reply message (max 50 words)'' @ [newline, newline] @
     ''SMS text: '' @ text @ [newline, newline] @
     ''For this SMS, should the user respond positively? Respond with valid JSON only.''\<close>

definition sms_system_prompt :: string where
  "sms_system_prompt =
     ''You are an SMS assistant that makes quick yes/no decisions and suggests replies.''"

text \<open>
  \<open>str.lower\<close> on the letters A to Z; every other character is left as it is (no
  character outside A to Z lowers to a letter of \<open>yes\<close> or \<open>no\<close>).
\<close>

definition lower_char :: "char \<Rightarrow> char" where
  "lower_char c =
     (case map_of (zip ''ABCDEFGHIJKLMNOPQRSTUVWXYZ'' ''abcdefghijklmnopqrstuvwxyz'') c of
        Some l \<Rightarrow> l
      | None \<Rightarrow> c)"

definition str_lower :: "string \<Rightarrow> string" where
  "str_lower s = map lower_char s"

text \<open>
  The two attribute calls of the source on a decoded value: \<open>v.get(key, default)\<close>,
  which only a \<open>dict\<close> has, and \<open>v.lower()\<close>, which only a \<open>str\<close> has. On any other
  value Python raises \<open>AttributeError\<close> (here with the attribute's name as its text).
\<close>

fun py_get :: "pyval \<Rightarrow> string \<Rightarrow> pyval \<Rightarrow> exn + pyval" where
  "py_get (PyDict kvs) key d = Inr (case map_of kvs key of Some v \<Rightarrow> v | None \<Rightarrow> d)"
| "py_get v key d = Inl (AttributeError ''get'')"

fun py_lower :: "pyval \<Rightarrow> exn + string" where
  "py_lower (PyStr s) = Inr (str_lower s)"
| "py_lower v = Inl (AttributeError ''lower'')"

text \<open>
  The dictionary \<open>make_decision\<close> returns; \<open>reply_text\<close> holds whatever value the
  payload carried under \<open>reply\<close>.
\<close>

record sms_decision =
  decision :: string
  reply_text :: pyval
  decision_processing_time_ms :: real

text \<open>
  The \<open>try\<close> block of \<open>make_decision\<close>. \<open>json.loads\<close> is a parameter: a decoder from
  the reply text to a value, or to the exception it raises.
\<close>

definition make_decision_try :: "(string \<Rightarrow> exn + pyval) \<Rightarrow> completion \<Rightarrow> exn + sms_decision" where
  "make_decision_try json_loads result =
     (case json_loads (response result) of
        Inl e \<Rightarrow> Inl e
      | Inr response_json \<Rightarrow>
          (case py_get response_json ''decision'' (PyStr ''no'') of
             Inl e \<Rightarrow> Inl e
           | Inr d \<Rightarrow>
               (case py_lower d of
                  Inl e \<Rightarrow> Inl e
                | Inr lowered \<Rightarrow>
                    (case py_get response_json ''reply'' (PyStr []) of
                       Inl e \<Rightarrow> Inl e
                     | Inr reply \<Rightarrow>
                         Inr \<lparr>decision =
                                (if lowered \<notin> set [''yes'', ''no''] then ''no'' else lowered),
                              reply_text = reply,
                              decision_processing_time_ms = processing_time_ms result\<rparr>))))"

text \<open>
  \<open>make_decision\<close>: an exception of \<open>chat_completion\<close> propagates; in the \<open>try\<close> block
  only \<open>json.JSONDecodeError\<close> and \<open>KeyError\<close> are caught and turned into the fallback.
\<close>

definition make_decision ::
  "(string \<Rightarrow> exn + pyval) \<Rightarrow> OpenAIService \<Rightarrow> provider \<Rightarrow> nat \<Rightarrow> string
     \<Rightarrow> (exn + sms_decision) \<times> nat \<times> real list" where
  "make_decision json_loads openai_service provider calls text =
     (case chat_completion openai_service provider calls (sms_prompt text)
             (Some sms_system_prompt) of
        (Inl e, st) \<Rightarrow> (Inl e, st)
      | (Inr result, st) \<Rightarrow>
          (case make_decision_try json_loads result of
             Inr d \<Rightarrow> (Inr d, st)
           | Inl e \<Rightarrow>
               if isinstance_JSONDecodeError e \<or> isinstance_KeyError e
               then (Inr \<lparr>decision = ''no'',
                          reply_text = PyStr ''Unable to process request'',
                          decision_processing_time_ms = processing_time_ms result\<rparr>, st)
               else (Inl e, st)))"

text \<open>
  A decoder for examples: it knows the texts of its table and raises
  \<open>JSONDecodeError\<close> on every other text.
\<close>

definition loads_of :: "(string \<times> pyval) list \<Rightarrow> string \<Rightarrow> exn + pyval" where
  "loads_of table s =
     (case map_of table s of
        Some v \<Rightarrow> Inr v
      | None \<Rightarrow> Inl (JSONDecodeError ''Expecting value''))"

section \<open>Tables and repositories (app/models.py, app/schemas.py, app/repositories.py)\<close>

text \<open>
  A table is the list of its rows. The store is the default SQLite database of
  \<open>config.py\<close>. An integer handed to it must fit in 64 bits: binding a larger Python
  \<open>int\<close> raises \<open>OverflowError\<close>. A column whose attribute is not \<open>Optional\<close> is
  \<open>NOT NULL\<close>, \<open>users.email\<close> is \<open>UNIQUE\<close>, and a commit that breaks a constraint raises
  \<open>IntegrityError\<close> and changes nothing. In a row object an attribute an update can assign
  holds an optional value: \<open>setattr\<close> assigns whatever the update carries, \<open>None\<close>
  included. Timestamps are numbers.
\<close>

definition sqlite_integer :: "int \<Rightarrow> bool" where
  "sqlite_integer i = (- (2 ^ 63) \<le> i \<and> i < 2 ^ 63)"

definition overflow :: exn where
  "overflow = OverflowError ''Python int too large to convert to SQLite INTEGER''"

record user =
  u_id :: int
  username :: string
  email :: "string option"
  phone_number :: "string option"
  is_active :: "bool option"
  u_created_at :: nat
  u_updated_at :: nat

record user_preference =
  p_id :: int
  p_user_id :: int
  language :: "string option"
  tts_voice :: "string option"
  auto_reply_enabled :: "bool option"
  conversation_timeout :: "int option"
  notification_email :: "string option"
  p_created_at :: nat
  p_updated_at :: nat

record conversation_log =
  c_id :: "int option"
  c_user_id :: int
  input_text :: string
  gpt_response :: string
  c_input_tokens :: int
  c_output_tokens :: int
  c_processing_time_ms :: real
  c_model_used :: string
  c_created_at :: nat

record call_log =
  l_id :: "int option"
  l_user_id :: int
  call_duration_seconds :: real
  success :: bool
  error_message :: "string option"
  l_created_at :: nat

datatype SMSDecisionEnum = YES | NO

record sms_log =
  s_id :: "int option"
  s_user_id :: int
  incoming_text :: string
  s_decision :: SMSDecisionEnum
  s_reply_text :: string
  s_created_at :: nat

record database =
  users :: "user list"
  user_preferences :: "user_preference list"
  conversation_logs :: "conversation_log list"
  call_logs :: "call_log list"
  sms_logs :: "sms_log list"

text \<open>
  \<open>UserUpdate\<close> and \<open>UserPreferenceUpdate\<close>: for each field, \<open>None\<close> when the field
  was not set (\<open>model_dump(exclude_unset=True)\<close> leaves it out), \<open>Some v\<close> when it was
  set to \<open>v\<close>.
\<close>

record UserUpdate =
  upd_email :: "string option option"
  upd_phone_number :: "string option option"
  upd_is_active :: "bool option option"

record UserPreferenceUpdate =
  upd_language :: "string option option"
  upd_tts_voice :: "string option option"
  upd_auto_reply_enabled :: "bool option option"
  upd_conversation_timeout :: "int option option"
  upd_notification_email :: "string option option"

text \<open>\<open>UserRepository.get\<close>: the id is bound to the query, then the first match is read.\<close>

definition UserRepository_get :: "database \<Rightarrow> int \<Rightarrow> exn + user option" where
  "UserRepository_get db user_id =
     (if sqlite_integer user_id then Inr (find (\<lambda>u. u_id u = user_id) (users db))
      else Inl overflow)"

text \<open>The \<open>setattr\<close> loop over the fields that were set.\<close>

definition user_setattrs :: "UserUpdate \<Rightarrow> user \<Rightarrow> user" where
  "user_setattrs upd db_user =
     db_user\<lparr>email := (case upd_email upd of None \<Rightarrow> email db_user | Some v \<Rightarrow> v),
             phone_number :=
               (case upd_phone_number upd of None \<Rightarrow> phone_number db_user | Some v \<Rightarrow> v),
             is_active :=
               (case upd_is_active upd of None \<Rightarrow> is_active db_user | Some v \<Rightarrow> v)\<rparr>"

text \<open>
  What the commit of a changed user row checks, for the attributes that changed:
  \<open>email\<close> and \<open>is_active\<close> are \<open>NOT NULL\<close>, and no other row has the same \<open>email\<close>.
\<close>

definition user_commit_fails :: "database \<Rightarrow> user \<Rightarrow> user \<Rightarrow> bool" where
  "user_commit_fails db db_user changed =
     ((email changed \<noteq> email db_user \<and>
         (email changed = None \<or>
          list_ex (\<lambda>u. u_id u \<noteq> u_id db_user \<and> email u = email changed) (users db)))
      \<or> (is_active changed \<noteq> is_active db_user \<and> is_active changed = None))"

definition UserRepository_update ::
  "database \<Rightarrow> int \<Rightarrow> UserUpdate \<Rightarrow> (exn + user option) \<times> database" where
  "UserRepository_update db user_id upd =
     (case UserRepository_get db user_id of
        Inl e \<Rightarrow> (Inl e, db)
      | Inr None \<Rightarrow> (Inr None, db)
      | Inr (Some db_user) \<Rightarrow>
          (let changed = user_setattrs upd db_user
           in if user_commit_fails db db_user changed
              then (Inl (IntegrityError ''constraint failed''), db)
              else (Inr (Some changed),
                    db\<lparr>users :=
                         map (\<lambda>u. if u_id u = user_id then changed else u) (users db)\<rparr>)))"

text \<open>
  \<open>UserRepository.delete\<close>. The relationships of \<open>User\<close> have no delete cascade: deleting
  a user sets the \<open>user_id\<close> of the rows it owns to \<open>NULL\<close>, which their \<open>NOT NULL\<close> columns
  refuse.
\<close>

definition owns_rows :: "database \<Rightarrow> int \<Rightarrow> bool" where
  "owns_rows db user_id =
     (list_ex (\<lambda>p. p_user_id p = user_id) (user_preferences db) \<or>
      list_ex (\<lambda>c. c_user_id c = user_id) (conversation_logs db) \<or>
      list_ex (\<lambda>l. l_user_id l = user_id) (call_logs db) \<or>
      list_ex (\<lambda>s. s_user_id s = user_id) (sms_logs db))"

definition UserRepository_delete :: "database \<Rightarrow> int \<Rightarrow> (exn + bool) \<times> database" where
  "UserRepository_delete db user_id =
     (case UserRepository_get db user_id of
        Inl e \<Rightarrow> (Inl e, db)
      | Inr None \<Rightarrow> (Inr False, db)
      | Inr (Some db_user) \<Rightarrow>
          if owns_rows db user_id
          then (Inl (IntegrityError ''NOT NULL constraint failed''), db)
          else (Inr True, db\<lparr>users := filter (\<lambda>u. u_id u \<noteq> user_id) (users db)\<rparr>))"

definition UserPreferenceRepository_get ::
  "database \<Rightarrow> int \<Rightarrow> exn + user_preference option" where
  "UserPreferenceRepository_get db preference_id =
     (if sqlite_integer preference_id
      then Inr (find (\<lambda>p. p_id p = preference_id) (user_preferences db))
      else Inl overflow)"

definition preference_setattrs :: "UserPreferenceUpdate \<Rightarrow> user_preference \<Rightarrow> user_preference" where
  "preference_setattrs upd db_pref =
     db_pref\<lparr>language := (case upd_language upd of None \<Rightarrow> language db_pref | Some v \<Rightarrow> v),
             tts_voice := (case upd_tts_voice upd of None \<Rightarrow> tts_voice db_pref | Some v \<Rightarrow> v),
             auto_reply_enabled :=
               (case upd_auto_reply_enabled upd of
                  None \<Rightarrow> auto_reply_enabled db_pref | Some v \<Rightarrow> v),
             conversation_timeout :=
               (case upd_conversation_timeout upd of
                  None \<Rightarrow> conversation_timeout db_pref | Some v \<Rightarrow> v),
             notification_email :=
               (case upd_notification_email upd of
                  None \<Rightarrow> notification_email db_pref | Some v \<Rightarrow> v)\<rparr>"

text \<open>
  What the commit of a changed preference row raises, for the attributes that changed:
  a new \<open>conversation_timeout\<close> must fit in 64 bits, and \<open>language\<close>, \<open>tts_voice\<close>,
  \<open>auto_reply_enabled\<close> and \<open>conversation_timeout\<close> are \<open>NOT NULL\<close>.
\<close>

definition preference_commit_error :: "user_preference \<Rightarrow> user_preference \<Rightarrow> exn option" where
  "preference_commit_error db_pref changed =
     (if conversation_timeout changed \<noteq> conversation_timeout db_pref \<and>
         (case conversation_timeout changed of None \<Rightarrow> False | Some t \<Rightarrow> \<not> sqlite_integer t)
      then Some overflow
      else if (language changed \<noteq> language db_pref \<and> language changed = None) \<or>
              (tts_voice changed \<noteq> tts_voice db_pref \<and> tts_voice changed = None) \<or>
              (auto_reply_enabled changed \<noteq> auto_reply_enabled db_pref \<and>
                 auto_reply_enabled changed = None) \<or>
              (conversation_timeout changed \<noteq> conversation_timeout db_pref \<and>
                 conversation_timeout changed = None)
      then Some (IntegrityError ''NOT NULL constraint failed'')
      else None)"

definition UserPreferenceRepository_update ::
  "database \<Rightarrow> int \<Rightarrow> UserPreferenceUpdate \<Rightarrow> (exn + user_preference option) \<times> database" where
  "UserPreferenceRepository_update db preference_id upd =
     (case UserPreferenceRepository_get db preference_id of
        Inl e \<Rightarrow> (Inl e, db)
      | Inr None \<Rightarrow> (Inr None, db)
      | Inr (Some db_pref) \<Rightarrow>
          (let changed = preference_setattrs upd db_pref
           in case preference_commit_error db_pref changed of
                Some e \<Rightarrow> (Inl e, db)
              | None \<Rightarrow>
                  (Inr (Some changed),
                   db\<lparr>user_preferences :=
                        map (\<lambda>p. if p_id p = preference_id then changed else p)
                          (user_preferences db)\<rparr>)))"

definition UserPreferenceRepository_delete :: "database \<Rightarrow> int \<Rightarrow> (exn + bool) \<times> database" where
  "UserPreferenceRepository_delete db preference_id =
     (case UserPreferenceRepository_get db preference_id of
        Inl e \<Rightarrow> (Inl e, db)
      | Inr None \<Rightarrow> (Inr False, db)
      | Inr (Some db_pref) \<Rightarrow>
          (Inr True, db\<lparr>user_preferences :=
                          filter (\<lambda>p. p_id p \<noteq> preference_id) (user_preferences db)\<rparr>))"

text \<open>
  \<open>ConversationLogRepository.create\<close>: the integers of the row are bound to the insert,
  the insert gives the row the next primary key (one more than the largest in the
  table), and \<open>refresh\<close> reads the row back.
\<close>

definition next_id :: "int option list \<Rightarrow> int" where
  "next_id ids = fold (\<lambda>i m. case i of None \<Rightarrow> m | Some j \<Rightarrow> max j m) ids 0 + 1"

definition ConversationLogRepository_create ::
  "database \<Rightarrow> conversation_log \<Rightarrow> (exn + conversation_log) \<times> database" where
  "ConversationLogRepository_create db row =
     (if sqlite_integer (c_user_id row) \<and> sqlite_integer (c_input_tokens row) \<and>
         sqlite_integer (c_output_tokens row)
      then (let db_log = row\<lparr>c_id := Some (next_id (map c_id (conversation_logs db)))\<rparr>
            in (Inr db_log, db\<lparr>conversation_logs := conversation_logs db @ [db_log]\<rparr>))
      else (Inl overflow, db))"

section \<open>The conversation endpoint (app/routers/conversation.py)\<close>

record ConversationRequest =
  request_user_id :: int
  request_text :: string

datatype http_exception = HTTPException nat string

text \<open>
  The two handlers at the end of the endpoint: an \<open>APIError\<close> becomes 503, any other
  exception 500.
\<close>

definition conversation_error :: "exn \<Rightarrow> http_exception" where
  "conversation_error e =
     (if isinstance_APIError e
      then HTTPException 503 ''AI service temporarily unavailable''
      else HTTPException 500 ''Error processing conversation'')"

text \<open>
  The handler \<open>process_conversation\<close> of the router: the user must exist (404), the
  service runs, the log row is stored and returned. Every step is inside the \<open>try\<close>
  statement. \<open>now\<close> is the time the log object is built.
\<close>

definition router_process_conversation ::
  "OpenAIService \<Rightarrow> provider \<Rightarrow> nat \<Rightarrow> nat \<Rightarrow> database \<Rightarrow> ConversationRequest
     \<Rightarrow> (http_exception + conversation_log) \<times> database \<times> nat" where
  "router_process_conversation service provider calls now db request =
     (case UserRepository_get db (request_user_id request) of
        Inl e \<Rightarrow> (Inl (conversation_error e), db, calls)
      | Inr None \<Rightarrow> (Inl (HTTPException 404 ''User not found''), db, calls)
      | Inr (Some user) \<Rightarrow>
          (case process_conversation service provider calls (request_text request) of
             (Inl e, calls', slept) \<Rightarrow> (Inl (conversation_error e), db, calls')
           | (Inr result, calls', slept) \<Rightarrow>
               (case ConversationLogRepository_create db
                       \<lparr>c_id = None, c_user_id = request_user_id request,
                        input_text = request_text request,
                        gpt_response = response result,
                        c_input_tokens = input_tokens result,
                        c_output_tokens = output_tokens result,
                        c_processing_time_ms = processing_time_ms result,
                        c_model_used = model_used result,
                        c_created_at = now\<rparr> of
                  (Inl e, db') \<Rightarrow> (Inl (conversation_error e), db', calls')
                | (Inr db_log, db') \<Rightarrow> (Inr db_log, db', calls'))))"

section \<open>The retry loop of chat_completion\<close>

lemma retry_loop_3:
  "retry_loop 3 w rf fn 1 [] =
     (case fn 1 of
        Inr r \<Rightarrow> (Inr r, 1, [])
      | Inl e \<Rightarrow>
          if \<not> rf e then (Inl e, 1, [])
          else (case fn 2 of
                  Inr r \<Rightarrow> (Inr r, 2, [w 1])
                | Inl e \<Rightarrow>
                    if \<not> rf e then (Inl e, 2, [w 1])
                    else (case fn 3 of
                            Inr r \<Rightarrow> (Inr r, 3, [w 1, w 2])
                          | Inl e \<Rightarrow> (Inl e, 3, [w 1, w 2]))))"
proof -
  have n2: "(1::nat) + 1 = 2" and n3: "(2::nat) + 1 = 3"
    by simp_all
  have s3: "retry_loop 3 w rf fn 3 sl =
      (case fn 3 of Inr r \<Rightarrow> (Inr r, 3, sl) | Inl e \<Rightarrow> (Inl e, 3, sl))" for sl
    by (subst retry_loop.simps) (simp split: sum.splits)
  have s2: "retry_loop 3 w rf fn 2 sl =
      (case fn 2 of Inr r \<Rightarrow> (Inr r, 2, sl)
       | Inl e \<Rightarrow> if \<not> rf e then (Inl e, 2, sl) else retry_loop 3 w rf fn 3 (sl @ [w 2]))" for sl
    by (subst retry_loop.simps) (simp only: n3 split: sum.splits, simp)
  have s1: "retry_loop 3 w rf fn 1 sl =
      (case fn 1 of Inr r \<Rightarrow> (Inr r, 1, sl)
       | Inl e \<Rightarrow> if \<not> rf e then (Inl e, 1, sl) else retry_loop 3 w rf fn 2 (sl @ [w 1]))" for sl
    by (subst retry_loop.simps) (simp only: n2 split: sum.splits, simp)
  show ?thesis
    by (simp only: s1 [of "[]"] s2 s3 append.simps)
qed

lemma wait_exponential_1: "wait_exponential 1 1 10 1 = 1"
  by (simp add: wait_exponential_def)

lemma wait_exponential_2: "wait_exponential 1 1 10 2 = 2"
  by (simp add: wait_exponential_def)

lemma RateLimitError_is_APIError: "isinstance_RateLimitError e \<Longrightarrow> isinstance_APIError e"
  by (cases e) simp_all

lemma retry_if_APIError:
  "(isinstance_RateLimitError e \<or> isinstance_APIError e) = isinstance_APIError e"
  by (cases e) simp_all

text \<open>The three attempts of \<open>chat_completion\<close>, written out.\<close>

lemma chat_completion_attempts:
  "chat_completion self p calls text sp =
     (case chat_completion_body self p calls text sp of
        Inr r \<Rightarrow> (Inr r, calls + 1, [])
      | Inl e \<Rightarrow>
          if \<not> isinstance_APIError e then (Inl e, calls + 1, [])
          else
            (case chat_completion_body self p (calls + 1) text sp of
               Inr r \<Rightarrow> (Inr r, calls + 2, [1])
             | Inl e \<Rightarrow>
                 if \<not> isinstance_APIError e then (Inl e, calls + 2, [1])
                 else
                   (case chat_completion_body self p (calls + 2) text sp of
                      Inr r \<Rightarrow> (Inr r, calls + 3, [1, 2])
                    | Inl e \<Rightarrow> (Inl e, calls + 3, [1, 2]))))"
proof -
  have a: "calls + 1 - 1 = calls" "calls + 2 - 1 = calls + 1" "calls + 3 - 1 = calls + 2"
    by simp_all
  show ?thesis
    unfolding chat_completion_def retry_loop_3 wait_exponential_1 wait_exponential_2 a
      retry_if_APIError
    by (simp split: sum.splits)
qed

lemma body_of_awaited_error:
  "awaited self p k text sp = Inl e \<Longrightarrow>
   chat_completion_body self p k text sp =
     Inl (if e = TimeoutError then APIError_call ''OpenAI request timeout''
          else if isinstance_APIError e then e
          else APIError_call (''Unexpected error: '' @ str_exn e))"
  by (auto simp: chat_completion_body_def awaited_def Let_def RateLimitError_is_APIError)

lemma body_of_awaited_response:
  "awaited self p k text sp = Inr resp \<Longrightarrow>
   chat_completion_body self p k text sp =
     Inr \<lparr>response = content resp, input_tokens = prompt_tokens resp,
          output_tokens = completion_tokens resp,
          processing_time_ms =
            seconds_taken (p k (create_request self text sp)) (real_of_int (self_timeout self)) * 1000,
          model_used = self_model self\<rparr>"
  by (simp add: chat_completion_body_def awaited_def Let_def)

section \<open>The decision of make_decision\<close>

lemma make_decision_of_completion:
  "chat_completion self p calls (sms_prompt msg) (Some sms_system_prompt) = (Inr result, st) \<Longrightarrow>
   make_decision json_loads self p calls msg =
     (case make_decision_try json_loads result of
        Inr d \<Rightarrow> (Inr d, st)
      | Inl e \<Rightarrow>
          if isinstance_JSONDecodeError e \<or> isinstance_KeyError e
          then (Inr \<lparr>decision = ''no'', reply_text = PyStr ''Unable to process request'',
                     decision_processing_time_ms = processing_time_ms result\<rparr>, st)
          else (Inl e, st))"
  by (simp add: make_decision_def)

lemma str_lower_no: "str_lower ''no'' = ''no''"
  by (simp add: str_lower_def lower_char_def)

lemma make_decision_try_decision:
  "make_decision_try json_loads result = Inr d \<Longrightarrow> decision d = ''yes'' \<or> decision d = ''no''"
  by (auto simp: make_decision_try_def split: sum.splits if_splits)

lemma example_completion:
  "chat_completion (OpenAIService_init default_settings)
     (scripted [] (Finishes 1 (Inr \<lparr>content = c, prompt_tokens = 50, completion_tokens = 20\<rparr>)))
     0 msg sp
   = (Inr \<lparr>response = c, input_tokens = 50, output_tokens = 20, processing_time_ms = 1000,
           model_used = ''gpt-3.5-turbo''\<rparr>, 1, [])"
  by (simp add: chat_completion_attempts chat_completion_body_def scripted_def
      OpenAIService_init_def default_settings_def)

text \<open>
  A decision field that is a string: any string that does not lower to \<open>yes\<close> or \<open>no\<close>
  gives \<open>no\<close> and keeps the reply field, the empty string when it is absent. And the
  decision of every value \<open>make_decision\<close> returns is \<open>yes\<close> or \<open>no\<close>.
\<close>

lemma make_decision_string_decision:
  "(chat_completion self p calls (sms_prompt msg) (Some sms_system_prompt) = (Inr result, st) \<and>
    json_loads (response result) = Inr (PyDict kvs) \<and>
    map_of kvs ''decision'' = Some (PyStr d) \<and>
    str_lower d \<noteq> ''yes'' \<and> str_lower d \<noteq> ''no'' \<longrightarrow>
      make_decision json_loads self p calls msg =
        (Inr \<lparr>decision = ''no'',
              reply_text = (case map_of kvs ''reply'' of Some v \<Rightarrow> v | None \<Rightarrow> PyStr []),
              decision_processing_time_ms = processing_time_ms result\<rparr>, st))
   \<and>
   (make_decision json_loads' self' p' calls' msg' = (Inr dd, st') \<longrightarrow>
      decision dd = ''yes'' \<or> decision dd = ''no'')"
proof (intro conjI impI)
  assume "chat_completion self p calls (sms_prompt msg) (Some sms_system_prompt) = (Inr result, st) \<and>
    json_loads (response result) = Inr (PyDict kvs) \<and>
    map_of kvs ''decision'' = Some (PyStr d) \<and>
    str_lower d \<noteq> ''yes'' \<and> str_lower d \<noteq> ''no''"
  then show "make_decision json_loads self p calls msg =
        (Inr \<lparr>decision = ''no'',
              reply_text = (case map_of kvs ''reply'' of Some v \<Rightarrow> v | None \<Rightarrow> PyStr []),
              decision_processing_time_ms = processing_time_ms result\<rparr>, st)"
    by (simp add: make_decision_of_completion make_decision_try_def)
next
  assume h: "make_decision json_loads' self' p' calls' msg' = (Inr dd, st')"
  obtain out st0 where c: "chat_completion self' p' calls' (sms_prompt msg') (Some sms_system_prompt) = (out, st0)"
    by (cases "chat_completion self' p' calls' (sms_prompt msg') (Some sms_system_prompt)")
  show "decision dd = ''yes'' \<or> decision dd = ''no''"
  proof (cases out)
    case (Inl e)
    with h c show ?thesis by (simp add: make_decision_def)
  next
    case (Inr result)
    with h c show ?thesis
      by (auto simp: make_decision_of_completion split: sum.splits if_splits
          dest: make_decision_try_decision)
  qed
qed

section \<open>Properties\<close>

subsection \<open>validate_response\<close>

text \<open>
  C7: for every text, \<open>validate_response\<close> is true exactly when the text has at least 1
  and fewer than 10000 characters; it is a total check that returns a boolean and
  raises nothing.
\<close>

theorem validate_response_iff:
  "validate_response T = (1 \<le> length T \<and> length T < 10000)"
  by (cases T) (simp_all add: validate_response_def)

subsection \<open>Retries of chat_completion\<close>

text \<open>
  C4: when the provider fails with a rate-limit error on the first two attempts and
  answers the third, \<open>chat_completion\<close> returns that answer and has made exactly 3
  provider calls; when the provider fails with a rate-limit error on every attempt,
  \<open>chat_completion\<close> fails after exactly 3 provider calls and raises the last
  rate-limit error.
\<close>

theorem chat_completion_rate_limit_retry:
  "(awaited self p1 calls text sp = Inl (RateLimitError m1) \<and>
    awaited self p1 (calls + 1) text sp = Inl (RateLimitError m2) \<and>
    awaited self p1 (calls + 2) text sp = Inr resp \<longrightarrow>
      (\<exists>r. chat_completion self p1 calls text sp = (Inr r, calls + 3, [1, 2]) \<and>
           response r = content resp \<and> input_tokens r = prompt_tokens resp \<and>
           output_tokens r = completion_tokens resp))
   \<and>
   ((\<forall>k<3. awaited self p2 (calls + k) text sp = Inl (RateLimitError (m k))) \<longrightarrow>
      chat_completion self p2 calls text sp = (Inl (RateLimitError (m 2)), calls + 3, [1, 2]))"
proof (intro conjI impI)
  assume h: "awaited self p1 calls text sp = Inl (RateLimitError m1) \<and>
    awaited self p1 (calls + 1) text sp = Inl (RateLimitError m2) \<and>
    awaited self p1 (calls + 2) text sp = Inr resp"
  then show "\<exists>r. chat_completion self p1 calls text sp = (Inr r, calls + 3, [1, 2]) \<and>
           response r = content resp \<and> input_tokens r = prompt_tokens resp \<and>
           output_tokens r = completion_tokens resp"
    by (simp add: chat_completion_attempts body_of_awaited_error body_of_awaited_response)
next
  assume h: "\<forall>k<3. awaited self p2 (calls + k) text sp = Inl (RateLimitError (m k))"
  have "awaited self p2 calls text sp = Inl (RateLimitError (m 0))"
    using h [rule_format, of 0] by simp
  moreover have "awaited self p2 (calls + 1) text sp = Inl (RateLimitError (m 1))"
    using h [rule_format, of 1] by simp
  moreover have "awaited self p2 (calls + 2) text sp = Inl (RateLimitError (m 2))"
    using h [rule_format, of 2] by simp
  ultimately show "chat_completion self p2 calls text sp = (Inl (RateLimitError (m 2)), calls + 3, [1, 2])"
    by (simp add: chat_completion_attempts body_of_awaited_error)
qed

theorem chat_completion_rate_limit_retry_witness:
  "(\<exists>r. chat_completion (OpenAIService_init default_settings)
          (scripted [Finishes 0 (Inl (RateLimitError ''429'')), Finishes 0 (Inl (RateLimitError ''429''))]
             (Finishes 1 (Inr \<lparr>content = ''ok'', prompt_tokens = 4, completion_tokens = 1\<rparr>)))
          0 ''hi'' None = (Inr r, 3, [1, 2]) \<and> response r = ''ok'')
   \<and> chat_completion (OpenAIService_init default_settings)
        (scripted [] (Finishes 0 (Inl (RateLimitError ''429'')))) 0 ''hi'' None
      = (Inl (RateLimitError ''429''), 3, [1, 2])"
  using chat_completion_rate_limit_retry
    [of "OpenAIService_init default_settings"
        "scripted [Finishes 0 (Inl (RateLimitError ''429'')), Finishes 0 (Inl (RateLimitError ''429''))]
             (Finishes 1 (Inr \<lparr>content = ''ok'', prompt_tokens = 4, completion_tokens = 1\<rparr>))"
        0 "''hi''" None "''429''" "''429''"
        "\<lparr>content = ''ok'', prompt_tokens = 4, completion_tokens = 1\<rparr>"
        "scripted [] (Finishes 0 (Inl (RateLimitError ''429'')))" "\<lambda>k. ''429''"]
  by (auto simp add: awaited_def scripted_def OpenAIService_init_def default_settings_def)

text \<open>
  C5, as stated: a failure that is not a rate-limit or provider-side error (a malformed
  request, an authentication failure) is raised after the first attempt, with no retry.
  It fails: \<open>AuthenticationError\<close> is an \<open>APIError\<close>, so the decorator retries it. With a
  provider that rejects the key on every call, \<open>chat_completion\<close> makes 3 calls, not 1.
\<close>

theorem chat_completion_authentication_failure_retried:
  "chat_completion (OpenAIService_init default_settings)
     (scripted [] (Finishes 0 (Inl (AuthenticationError ''401'')))) 0 ''hi'' None
     = (Inl (AuthenticationError ''401''), 3, [1, 2])
   \<and> fst (snd (chat_completion (OpenAIService_init default_settings)
        (scripted [] (Finishes 0 (Inl (AuthenticationError ''401'')))) 0 ''hi'' None)) \<noteq> 0 + 1"
  by (simp add: chat_completion_attempts chat_completion_body_def scripted_def
      OpenAIService_init_def default_settings_def)

text \<open>
  C5, as amended: a malformed request and an authentication failure are not failures
  that escape the retries. Like every error the provider raises as an \<open>APIError\<close> (or a
  subclass of it), they are retried: when the provider call fails with such an error on
  each of three attempts, \<open>chat_completion\<close> raises the last of them after exactly 3
  provider calls, having slept 1 and 2 seconds between them.
\<close>

theorem chat_completion_retries_every_APIError:
  "(\<forall>k<3. awaited self p (calls + k) msg sp = Inl (e k) \<and> isinstance_APIError (e k)) \<Longrightarrow>
   chat_completion self p calls msg sp = (Inl (e 2), calls + 3, [1, 2])"
proof -
  assume h: "\<forall>k<3. awaited self p (calls + k) msg sp = Inl (e k) \<and> isinstance_APIError (e k)"
  have nt: "isinstance_APIError x \<Longrightarrow> x \<noteq> TimeoutError" for x
    by (cases x) simp_all
  have "chat_completion_body self p calls msg sp = Inl (e 0) \<and> isinstance_APIError (e 0)"
    using h [rule_format, of 0] by (simp add: body_of_awaited_error nt)
  moreover have "chat_completion_body self p (calls + 1) msg sp = Inl (e 1) \<and> isinstance_APIError (e 1)"
    using h [rule_format, of 1] by (simp add: body_of_awaited_error nt)
  moreover have "chat_completion_body self p (calls + 2) msg sp = Inl (e 2)"
    using h [rule_format, of 2] by (simp add: body_of_awaited_error nt)
  ultimately show ?thesis
    by (simp add: chat_completion_attempts)
qed

theorem chat_completion_retries_every_APIError_witness:
  "chat_completion (OpenAIService_init default_settings)
     (scripted [] (Finishes 0 (Inl (BadRequestError ''400'')))) 0 ''hi'' None
     = (Inl (BadRequestError ''400''), 3, [1, 2])"
  using chat_completion_retries_every_APIError
    [where self = "OpenAIService_init default_settings"
       and p = "scripted [] (Finishes 0 (Inl (BadRequestError ''400'')))"
       and calls = 0 and msg = "''hi''" and sp = None and e = "\<lambda>k. BadRequestError ''400''"]
  by (simp add: awaited_def scripted_def OpenAIService_init_def default_settings_def)

text \<open>
  C6: when the provider call does not return within the configured timeout,
  \<open>chat_completion\<close> raises a timeout-kind provider failure. The handler for
  \<open>asyncio.TimeoutError\<close> means to: it raises \<open>APIError("OpenAI request timeout")\<close>. But
  that constructor call itself raises \<open>TypeError\<close>, which is no \<open>APIError\<close> and is not
  retried. With a provider that never answers, \<open>chat_completion\<close> returns after one
  attempt (it does not hang) and raises \<open>TypeError\<close>, not a timeout failure.
\<close>

theorem chat_completion_timeout_raises_TypeError:
  "chat_completion (OpenAIService_init default_settings) (scripted [] Hangs) 0 ''hi'' None
     = (Inl (TypeError ''APIError.__init__() missing 1 required positional argument: request''),
        1, [])"
  by (simp add: chat_completion_attempts chat_completion_body_def scripted_def
      OpenAIService_init_def default_settings_def APIError_call_def)

text \<open>
  C9: the attempt cap and the wait bounds follow the configured \<open>max_retries\<close> and
  \<open>retry_delay\<close>. The code reads both settings into the service and then ignores them: the
  decorator's arguments are the literals 3, 1, 1 and 10. With \<open>max_retries = 1\<close> and
  \<open>retry_delay = 5\<close> and a provider that always answers with a rate-limit error,
  \<open>chat_completion\<close> still makes 3 calls and sleeps 1 and 2 seconds.
\<close>

theorem chat_completion_ignores_retry_settings:
  "chat_completion
     (OpenAIService_init (default_settings\<lparr>max_retries := 1, retry_delay := 5\<rparr>))
     (scripted [] (Finishes 0 (Inl (RateLimitError ''429'')))) 0 ''hi'' None
     = (Inl (RateLimitError ''429''), 3, [1, 2])"
  by (simp add: chat_completion_attempts chat_completion_body_def scripted_def
      OpenAIService_init_def default_settings_def)

subsection \<open>The conversation service and its endpoint\<close>

text \<open>
  C8: when \<open>chat_completion\<close> succeeds and its reply fails \<open>validate_response\<close> (an
  empty reply, for one), \<open>process_conversation\<close> raises \<open>ValueError\<close> instead of
  returning the result, and the endpoint answers with an error and leaves the database
  as it was: no conversation log row is stored.
\<close>

theorem invalid_response_not_logged:
  "chat_completion service p calls (request_text request)
     (Some ConversationService_system_prompt) = (Inr result, calls', slept) \<Longrightarrow>
   \<not> validate_response (response result) \<Longrightarrow>
   process_conversation service p calls (request_text request)
     = (Inl (ValueError ''Invalid response from OpenAI''), calls', slept)
   \<and> router_process_conversation service p calls now db request
     = (Inl (case UserRepository_get db (request_user_id request) of
               Inl e \<Rightarrow> HTTPException 500 ''Error processing conversation''
             | Inr None \<Rightarrow> HTTPException 404 ''User not found''
             | Inr (Some user) \<Rightarrow> HTTPException 500 ''Error processing conversation''),
        db,
        case UserRepository_get db (request_user_id request) of
          Inl e \<Rightarrow> calls | Inr None \<Rightarrow> calls | Inr (Some user) \<Rightarrow> calls')"
  by (simp add: process_conversation_def router_process_conversation_def conversation_error_def
      UserRepository_get_def overflow_def split: option.splits)

theorem invalid_response_not_logged_witness:
  "process_conversation (OpenAIService_init default_settings)
     (scripted [] (Finishes 1 (Inr \<lparr>content = [], prompt_tokens = 50, completion_tokens = 20\<rparr>)))
     0 ''How are you?''
     = (Inl (ValueError ''Invalid response from OpenAI''), 1, [])
   \<and> router_process_conversation (OpenAIService_init default_settings)
     (scripted [] (Finishes 1 (Inr \<lparr>content = [], prompt_tokens = 50, completion_tokens = 20\<rparr>)))
     0 7
     \<lparr>users = [\<lparr>u_id = 1, username = ''ann'', email = Some ''ann@example.com'',
                 phone_number = None, is_active = Some True, u_created_at = 0,
                 u_updated_at = 0\<rparr>],
      user_preferences = [], conversation_logs = [], call_logs = [], sms_logs = []\<rparr>
     \<lparr>request_user_id = 1, request_text = ''How are you?''\<rparr>
     = (Inl (HTTPException 500 ''Error processing conversation''),
        \<lparr>users = [\<lparr>u_id = 1, username = ''ann'', email = Some ''ann@example.com'',
                 phone_number = None, is_active = Some True, u_created_at = 0,
                 u_updated_at = 0\<rparr>],
         user_preferences = [], conversation_logs = [], call_logs = [], sms_logs = []\<rparr>, 1)"
  using invalid_response_not_logged
    [where service = "OpenAIService_init default_settings"
       and p = "scripted [] (Finishes 1 (Inr \<lparr>content = [], prompt_tokens = 50, completion_tokens = 20\<rparr>))"
       and calls = 0 and request = "\<lparr>request_user_id = 1, request_text = ''How are you?''\<rparr>"
       and calls' = 1 and slept = "[]" and now = 7
       and db = "\<lparr>users = [\<lparr>u_id = 1, username = ''ann'', email = Some ''ann@example.com'',
                 phone_number = None, is_active = Some True, u_created_at = 0,
                 u_updated_at = 0\<rparr>],
          user_preferences = [], conversation_logs = [], call_logs = [], sms_logs = []\<rparr>"]
  by (simp add: example_completion validate_response_def UserRepository_get_def
      sqlite_integer_def)

subsection \<open>The decision of the SMS service\<close>

text \<open>
  C1: \<open>make_decision\<close> never raises while it interprets the reply. The code catches
  \<open>JSONDecodeError\<close> and \<open>KeyError\<close> only: a reply that decodes to a list has no
  \<open>get\<close>, a decision that is a number has no \<open>lower\<close>, and the \<open>AttributeError\<close>
  leaves \<open>make_decision\<close>.
\<close>

theorem make_decision_raises_AttributeError:
  \<open>make_decision (loads_of [(''[]'', PyList [])]) (OpenAIService_init default_settings)
     (scripted [] (Finishes 1 (Inr \<lparr>content = ''[]'', prompt_tokens = 50, completion_tokens = 20\<rparr>)))
     0 ''Some text''
   = (Inl (AttributeError ''get''), 1, [])
   \<and>
   make_decision (loads_of [(''{"decision": 1}'', PyDict [(''decision'', PyInt 1)])])
     (OpenAIService_init default_settings)
     (scripted []
        (Finishes 1 (Inr \<lparr>content = ''{"decision": 1}'', prompt_tokens = 50, completion_tokens = 20\<rparr>)))
     0 ''Some text''
   = (Inl (AttributeError ''lower''), 1, [])\<close>
  by (simp add: make_decision_of_completion [OF example_completion] make_decision_try_def
      loads_of_def)

text \<open>
  C2, as stated: a reply that does not decode, or that decodes to an object with no
  decision field, gives the fallback with the reply text
  \<open>Unable to process request\<close>. The second half fails: for the object \<open>{}\<close> the
  decision defaults to \<open>no\<close> and the reply text to the empty string.
\<close>

theorem make_decision_missing_decision_counterexample:
  "make_decision (loads_of [(''{}'', PyDict [])]) (OpenAIService_init default_settings)
     (scripted [] (Finishes 1 (Inr \<lparr>content = ''{}'', prompt_tokens = 50, completion_tokens = 20\<rparr>)))
     0 ''Some text''
   = (Inr \<lparr>decision = ''no'', reply_text = PyStr [], decision_processing_time_ms = 1000\<rparr>, 1, [])
   \<and> PyStr [] \<noteq> PyStr ''Unable to process request''"
  by (simp add: make_decision_of_completion [OF example_completion] make_decision_try_def
      loads_of_def str_lower_no)

text \<open>
  C2, as amended: after a successful completion, a reply that \<open>json.loads\<close> rejects
  with \<open>JSONDecodeError\<close> gives the fallback \<open>no\<close> with the reply text
  \<open>Unable to process request\<close>; a reply that decodes to an object with no decision
  field gives \<open>no\<close> with the object's reply field as the reply text, the empty string
  when that field is absent too.
\<close>

theorem make_decision_fallback:
  "chat_completion self p calls (sms_prompt msg) (Some sms_system_prompt) = (Inr result, st) \<Longrightarrow>
   (json_loads (response result) = Inl (JSONDecodeError m) \<longrightarrow>
      make_decision json_loads self p calls msg =
        (Inr \<lparr>decision = ''no'', reply_text = PyStr ''Unable to process request'',
              decision_processing_time_ms = processing_time_ms result\<rparr>, st))
   \<and>
   (json_loads (response result) = Inr (PyDict kvs) \<and> map_of kvs ''decision'' = None \<longrightarrow>
      make_decision json_loads self p calls msg =
        (Inr \<lparr>decision = ''no'',
              reply_text = (case map_of kvs ''reply'' of Some v \<Rightarrow> v | None \<Rightarrow> PyStr []),
              decision_processing_time_ms = processing_time_ms result\<rparr>, st))"
  by (simp add: make_decision_of_completion make_decision_try_def str_lower_no)

theorem make_decision_fallback_witness:
  \<open>make_decision (loads_of []) (OpenAIService_init default_settings)
     (scripted []
        (Finishes 1 (Inr \<lparr>content = ''This is not valid JSON'', prompt_tokens = 50,
                             completion_tokens = 20\<rparr>)))
     0 ''Some text''
   = (Inr \<lparr>decision = ''no'', reply_text = PyStr ''Unable to process request'',
           decision_processing_time_ms = 1000\<rparr>, 1, [])
   \<and>
   make_decision (loads_of [(''{"reply": "ok"}'', PyDict [(''reply'', PyStr ''ok'')])])
     (OpenAIService_init default_settings)
     (scripted []
        (Finishes 1 (Inr \<lparr>content = ''{"reply": "ok"}'', prompt_tokens = 50,
                             completion_tokens = 20\<rparr>)))
     0 ''Some text''
   = (Inr \<lparr>decision = ''no'', reply_text = PyStr ''ok'',
           decision_processing_time_ms = 1000\<rparr>, 1, [])\<close>
  using
    make_decision_fallback [where json_loads = "loads_of []" and m = "''Expecting value''"
      and kvs = "[]", OF example_completion]
    make_decision_fallback
      [where json_loads = \<open>loads_of [(''{"reply": "ok"}'', PyDict [(''reply'', PyStr ''ok'')])]\<close>
         and kvs = "[(''reply'', PyStr ''ok'')]" and m = "[]", OF example_completion]
  by (simp add: loads_of_def)

text \<open>
  C3: a reply that decodes to an object whose decision field is present and is not
  \<open>yes\<close> or \<open>no\<close>, whatever its case, gives the decision \<open>no\<close> and keeps the reply
  field. The code does so when the field is a string. When the field is present and is
  no string (\<open>null\<close>, a number), \<open>.lower()\<close> raises \<open>AttributeError\<close>, which the
  \<open>except\<close> clause does not catch: \<open>make_decision\<close> raises and returns no decision.
\<close>

theorem make_decision_null_decision_raises:
  \<open>make_decision
     (loads_of [(''{"decision": null, "reply": "ok"}'',
                 PyDict [(''decision'', PyNone), (''reply'', PyStr ''ok'')])])
     (OpenAIService_init default_settings)
     (scripted []
        (Finishes 1 (Inr \<lparr>content = ''{"decision": null, "reply": "ok"}'',
                             prompt_tokens = 50, completion_tokens = 20\<rparr>)))
     0 ''Some text''
   = (Inl (AttributeError ''lower''), 1, [])\<close>
  by (simp add: make_decision_of_completion [OF example_completion] make_decision_try_def
      loads_of_def)

subsection \<open>Updates and deletes of rows that do not exist\<close>

text \<open>
  C10, as stated: for every user or preference id that is in no row of its table,
  \<open>update\<close> returns \<open>None\<close> and \<open>delete\<close> returns \<open>False\<close>, neither an error. It fails
  for an id the store cannot hold: with the id \<open>2 ^ 63\<close> the lookup raises
  \<open>OverflowError\<close>, on an empty store too.
\<close>

theorem absent_target_overflow_counterexample:
  "UserRepository_update
     \<lparr>users = [], user_preferences = [], conversation_logs = [], call_logs = [],
      sms_logs = []\<rparr>
     9223372036854775808
     \<lparr>upd_email = None, upd_phone_number = None, upd_is_active = None\<rparr>
   = (Inl (OverflowError ''Python int too large to convert to SQLite INTEGER''),
      \<lparr>users = [], user_preferences = [], conversation_logs = [], call_logs = [],
       sms_logs = []\<rparr>)
   \<and>
   UserPreferenceRepository_delete
     \<lparr>users = [], user_preferences = [], conversation_logs = [], call_logs = [],
      sms_logs = []\<rparr>
     9223372036854775808
   = (Inl (OverflowError ''Python int too large to convert to SQLite INTEGER''),
      \<lparr>users = [], user_preferences = [], conversation_logs = [], call_logs = [],
       sms_logs = []\<rparr>)"
  by (simp add: UserRepository_update_def UserRepository_get_def
      UserPreferenceRepository_delete_def UserPreferenceRepository_get_def
      sqlite_integer_def overflow_def)

text \<open>
  C10, as amended: for a user id or a preference id that fits in the store's 64-bit
  integers and is in no row of its table, \<open>update\<close> returns \<open>None\<close>, \<open>delete\<close> returns
  \<open>False\<close>, neither raises, and both leave the database as it was.
\<close>

theorem absent_target_unchanged:
  "(sqlite_integer user_id \<and> user_id \<notin> u_id ` set (users db) \<longrightarrow>
      UserRepository_update db user_id uu = (Inr None, db) \<and>
      UserRepository_delete db user_id = (Inr False, db))
   \<and>
   (sqlite_integer preference_id \<and> preference_id \<notin> p_id ` set (user_preferences db) \<longrightarrow>
      UserPreferenceRepository_update db preference_id pu = (Inr None, db) \<and>
      UserPreferenceRepository_delete db preference_id = (Inr False, db))"
proof -
  have u: "UserRepository_get db user_id = Inr None"
    if "sqlite_integer user_id" "user_id \<notin> u_id ` set (users db)"
    using that by (auto simp: UserRepository_get_def find_None_iff)
  have p: "UserPreferenceRepository_get db preference_id = Inr None"
    if "sqlite_integer preference_id" "preference_id \<notin> p_id ` set (user_preferences db)"
    using that by (auto simp: UserPreferenceRepository_get_def find_None_iff)
  show ?thesis
    by (simp add: u p UserRepository_update_def UserRepository_delete_def
        UserPreferenceRepository_update_def UserPreferenceRepository_delete_def)
qed

theorem absent_target_unchanged_witness:
  "UserRepository_update
     \<lparr>users = [\<lparr>u_id = 1, username = ''ann'', email = Some ''ann@example.com'',
                 phone_number = None, is_active = Some True, u_created_at = 0,
                 u_updated_at = 0\<rparr>],
      user_preferences = [\<lparr>p_id = 1, p_user_id = 1, language = Some ''en'',
                 tts_voice = Some ''nova'', auto_reply_enabled = Some False,
                 conversation_timeout = Some 300, notification_email = None,
                 p_created_at = 0, p_updated_at = 0\<rparr>],
      conversation_logs = [], call_logs = [], sms_logs = []\<rparr> 2
     \<lparr>upd_email = Some (Some ''new@example.com''), upd_phone_number = None,
      upd_is_active = None\<rparr>
   = (Inr None,
     \<lparr>users = [\<lparr>u_id = 1, username = ''ann'', email = Some ''ann@example.com'',
                 phone_number = None, is_active = Some True, u_created_at = 0,
                 u_updated_at = 0\<rparr>],
      user_preferences = [\<lparr>p_id = 1, p_user_id = 1, language = Some ''en'',
                 tts_voice = Some ''nova'', auto_reply_enabled = Some False,
                 conversation_timeout = Some 300, notification_email = None,
                 p_created_at = 0, p_updated_at = 0\<rparr>],
      conversation_logs = [], call_logs = [], sms_logs = []\<rparr>)
   \<and>
   UserPreferenceRepository_delete
     \<lparr>users = [\<lparr>u_id = 1, username = ''ann'', email = Some ''ann@example.com'',
                 phone_number = None, is_active = Some True, u_created_at = 0,
                 u_updated_at = 0\<rparr>],
      user_preferences = [\<lparr>p_id = 1, p_user_id = 1, language = Some ''en'',
                 tts_voice = Some ''nova'', auto_reply_enabled = Some False,
                 conversation_timeout = Some 300, notification_email = None,
                 p_created_at = 0, p_updated_at = 0\<rparr>],
      conversation_logs = [], call_logs = [], sms_logs = []\<rparr> 5
   = (Inr False,
     \<lparr>users = [\<lparr>u_id = 1, username = ''ann'', email = Some ''ann@example.com'',
                 phone_number = None, is_active = Some True, u_created_at = 0,
                 u_updated_at = 0\<rparr>],
      user_preferences = [\<lparr>p_id = 1, p_user_id = 1, language = Some ''en'',
                 tts_voice = Some ''nova'', auto_reply_enabled = Some False,
                 conversation_timeout = Some 300, notification_email = None,
                 p_created_at = 0, p_updated_at = 0\<rparr>],
      conversation_logs = [], call_logs = [], sms_logs = []\<rparr>)"
  using absent_target_unchanged
    [where user_id = 2 and preference_id = 5
       and uu = "\<lparr>upd_email = Some (Some ''new@example.com''), upd_phone_number = None,
                  upd_is_active = None\<rparr>"
       and db = "\<lparr>users = [\<lparr>u_id = 1, username = ''ann'', email = Some ''ann@example.com'',
                 phone_number = None, is_active = Some True, u_created_at = 0,
                 u_updated_at = 0\<rparr>],
      user_preferences = [\<lparr>p_id = 1, p_user_id = 1, language = Some ''en'',
                 tts_voice = Some ''nova'', auto_reply_enabled = Some False,
                 conversation_timeout = Some 300, notification_email = None,
                 p_created_at = 0, p_updated_at = 0\<rparr>],
      conversation_logs = [], call_logs = [], sms_logs = []\<rparr>"]
  by (simp add: sqlite_integer_def)

end
